theory Spec2Isabelle
  imports Main
begin

section \<open>Data model of the conversation page\<close>

text \<open>
  The page controller \<^verbatim>\<open>AgentsPage\<close> keeps its state in fields of \<^verbatim>\<open>this\<close>.
  Every field that the conversation and message synchronisation reads or writes is a
  field of the record \<open>page_state\<close> below; methods become functions from state to state.

  A message carries an optional \<^verbatim>\<open>id\<close> (\<open>None\<close> is JavaScript's \<^verbatim>\<open>undefined\<close>,
  and \<^verbatim>\<open>undefined === undefined\<close> holds, as \<open>None = None\<close> does).
\<close>

record message =
  msg_id :: "string option"
  role :: string
  timestamp :: string
  content :: string

text \<open>
  \<open>lastModified\<close> is the value of \<^verbatim>\<open>new Date(conv.lastModified).getTime()\<close> in
  milliseconds; \<open>None\<close> stands for \<^verbatim>\<open>NaN\<close> (an unparsable date), which fails every
  comparison.
\<close>

record conversation =
  conv_id :: string
  title :: "string option"
  project :: "string option"
  lastMessage :: "string option"
  lastModified :: "int option"
  messageCount :: nat

record cursor =
  currentPage :: int
  limit :: int
  hasMore :: bool
  isLoading :: bool

record messages_cursor = cursor +
  conversationId :: "string option"

record filter_settings =
  status :: string
  timeRange :: string
  search :: string

text \<open>
  What the element \<^verbatim>\<open>#messages-content\<close> shows. \<open>MessageList ms shown\<close> is the markup
  written by \<^verbatim>\<open>renderCachedMessages\<close>: the list of rendered messages and the
  "loading older messages" indicator with its visibility. Scroll offsets are not part
  of the model.
\<close>

datatype messages_view =
    Placeholder
  | LoadingMessages
  | MessageList "message list" bool
  | NoMessagesFound
  | MessagesError string

record page_state =
  selectedConversationId :: "string option"
  filters :: filter_settings
  pagination :: cursor
  messagesPagination :: messages_cursor
  loadedConversations :: "conversation list"
  loadedMessages :: "string \<rightharpoonup> message list"
  messagesContent :: "messages_view option"
  conversationsList :: "conversation list option"
  svcConversations :: "conversation list"
  svcConversationStates :: "string \<rightharpoonup> string"
  svcError :: "string option"

text \<open>\<^verbatim>\<open>this.loadedMessages.get(conversationId) || []\<close>\<close>

definition cachedMessages :: "page_state \<Rightarrow> string \<Rightarrow> message list" where
  "cachedMessages s cid = (case loadedMessages s cid of None \<Rightarrow> [] | Some ms \<Rightarrow> ms)"

section \<open>Rendering the message list\<close>

text \<open>
  \<^verbatim>\<open>renderCachedMessages(messages, prepend)\<close> returns at once when the element is
  missing; otherwise both branches replace the element's markup by the same list markup
  with the indicator hidden (they differ in the scroll offset only).
\<close>

definition renderCachedMessages :: "message list \<Rightarrow> bool \<Rightarrow> page_state \<Rightarrow> page_state" where
  "renderCachedMessages messages prepend s =
     (case messagesContent s of
        None \<Rightarrow> s
      | Some _ \<Rightarrow> s\<lparr>messagesContent := Some (MessageList messages False)\<rparr>)"

text \<open>
  \<^verbatim>\<open>showMessagesLoadingIndicator(show)\<close> toggles the indicator only where the markup
  has one.
\<close>

definition showMessagesLoadingIndicator :: "bool \<Rightarrow> page_state \<Rightarrow> page_state" where
  "showMessagesLoadingIndicator sh s =
     (case messagesContent s of
        Some (MessageList ms _) \<Rightarrow> s\<lparr>messagesContent := Some (MessageList ms sh)\<rparr>
      | _ \<Rightarrow> s)"

section \<open>Push events: handleNewMessage\<close>

text \<open>
  The duplicate test of \<^verbatim>\<open>handleNewMessage\<close>:
  \<^verbatim>\<open>msg.id === message.id || (msg.timestamp === message.timestamp && msg.role === message.role)\<close>.
\<close>

definition sameMessage :: "message \<Rightarrow> message \<Rightarrow> bool" where
  "sameMessage message msg \<longleftrightarrow>
     msg_id msg = msg_id message \<or> (timestamp msg = timestamp message \<and> role msg = role message)"

text \<open>
  \<^verbatim>\<open>scrollToBottom\<close> and \<^verbatim>\<open>showNewMessageNotification\<close> touch the scroll offset
  and the banner colour only, which the state does not record.
\<close>

definition handleNewMessage :: "string \<Rightarrow> message \<Rightarrow> page_state \<Rightarrow> page_state" where
  "handleNewMessage cid message s =
     (if selectedConversationId s \<noteq> Some cid then s
      else
        let existingMessages = cachedMessages s cid;
            messageExists = list_ex (sameMessage message) existingMessages
        in if \<not> messageExists then
             let updatedMessages = existingMessages @ [message]
             in renderCachedMessages updatedMessages False
                  (s\<lparr>loadedMessages := (loadedMessages s)(cid \<mapsto> updatedMessages)\<rparr>)
           else s)"

section \<open>Filtering the conversation list\<close>

text \<open>
  \<^verbatim>\<open>getStateCategory(state)\<close>: the two tables of the source and its default.
\<close>

definition activeStates :: "string list" where
  "activeStates =
     [''Claude Code working...'', ''Awaiting user input...'', ''User typing...'',
      ''Awaiting response...'', ''Recently active'']"

definition inactiveStates :: "string list" where
  "inactiveStates = [''Idle'', ''Inactive'', ''Old'', ''unknown'']"

definition getStateCategory :: "string \<Rightarrow> string" where
  "getStateCategory state =
     (if state \<in> set activeStates then ''active''
      else if state \<in> set inactiveStates then ''inactive''
      else ''inactive'')"

text \<open>\<^verbatim>\<open>getTimeRangeMs(range)\<close>: \<^verbatim>\<open>ranges[range] || 0\<close>.\<close>

definition getTimeRangeMs :: "string \<Rightarrow> int" where
  "getTimeRangeMs rng =
     (if rng = ''1h'' then 60 * 60 * 1000
      else if rng = ''24h'' then 24 * 60 * 60 * 1000
      else if rng = ''7d'' then 7 * 24 * 60 * 60 * 1000
      else if rng = ''30d'' then 30 * 24 * 60 * 60 * 1000
      else 0)"

text \<open>
  \<^verbatim>\<open>String.prototype.toLowerCase\<close> is a function of the language, not of this program:
  the functions that call it take it as their first argument \<open>toLowerCase\<close>, and nothing
  is assumed about it. Apart from it the program only compares strings, joins them and
  searches one in another.
\<close>

fun startsWith :: "string \<Rightarrow> string \<Rightarrow> bool" where
  "startsWith s [] = True"
| "startsWith [] (y # ys) = False"
| "startsWith (x # xs) (y # ys) = (x = y \<and> startsWith xs ys)"

text \<open>\<^verbatim>\<open>String.prototype.includes\<close>: the argument occurs as a contiguous run.\<close>

fun includesStr :: "string \<Rightarrow> string \<Rightarrow> bool" where
  "includesStr [] t = (t = [])"
| "includesStr (x # xs) t = (startsWith (x # xs) t \<or> includesStr xs t)"

text \<open>\<^verbatim>\<open>states[conv.id] || 'unknown'\<close>: a missing key and the empty string are falsy.\<close>

definition stateOf :: "(string \<rightharpoonup> string) \<Rightarrow> string \<Rightarrow> string" where
  "stateOf states cid =
     (case states cid of None \<Rightarrow> ''unknown'' | Some st \<Rightarrow> if st = [] then ''unknown'' else st)"

text \<open>\<^verbatim>\<open>(conv.title || '')\<close>\<close>

definition orEmpty :: "string option \<Rightarrow> string" where
  "orEmpty x = (case x of None \<Rightarrow> [] | Some t \<Rightarrow> t)"

text \<open>
  \<^verbatim>\<open>filterConversations(conversations, states)\<close>, with \<^verbatim>\<open>this.filters\<close> and the
  value of \<^verbatim>\<open>Date.now()\<close> as arguments. The three filters run one after the other,
  each only when its setting asks for it.
\<close>

definition filterConversations ::
  "(string \<Rightarrow> string) \<Rightarrow> filter_settings \<Rightarrow> int \<Rightarrow> conversation list
     \<Rightarrow> (string \<rightharpoonup> string) \<Rightarrow> conversation list" where
  "filterConversations toLowerCase f now conversations states =
     (let filtered0 = conversations;
          filtered1 =
            (if status f \<noteq> ''all'' then
               filter (\<lambda>conv.
                 let state = stateOf states (conv_id conv);
                     category = getStateCategory state
                 in category = status f) filtered0
             else filtered0);
          timeRangeMs = getTimeRangeMs (timeRange f);
          filtered2 =
            (if timeRangeMs > 0 then
               let cutoff = now - timeRangeMs
               in filter (\<lambda>conv.
                    case lastModified conv of None \<Rightarrow> False | Some t \<Rightarrow> t \<ge> cutoff) filtered1
             else filtered1);
          filtered3 =
            (if search f \<noteq> [] then
               let searchLower = toLowerCase (search f)
               in filter (\<lambda>conv.
                    includesStr (toLowerCase (orEmpty (title conv))) searchLower \<or>
                    includesStr (toLowerCase (orEmpty (project conv))) searchLower \<or>
                    includesStr (toLowerCase (orEmpty (lastMessage conv))) searchLower) filtered2
             else filtered2)
      in filtered3)"

section \<open>Loading pages of conversations\<close>

text \<open>
  An \<^verbatim>\<open>async\<close> method runs up to its \<^verbatim>\<open>await\<close>, and its remainder runs when the
  awaited promise settles; other handlers may run in between. Each such method is
  therefore two functions: \<open>_begin\<close> (up to the \<^verbatim>\<open>await\<close>; it returns the request it
  issued, or \<open>None\<close> when it returned before issuing one) and \<open>_resume\<close> (from the
  settled promise to the end, \<^verbatim>\<open>finally\<close> block included).
\<close>

datatype 'a settled = Rejected | Fulfilled 'a

record page_request =
  rq_page :: int
  rq_limit :: int

record page_info =
  pi_page :: int
  pi_hasMore :: bool

record conversations_response =
  conversations :: "conversation list"
  cr_pagination :: page_info

text \<open>
  \<^verbatim>\<open>renderConversationsList(conversations, states, append)\<close>. \<open>None\<close> is the
  \<^verbatim>\<open>TypeError\<close> of writing to a missing \<^verbatim>\<open>#conversations-list\<close>. The result counter
  and the empty-state panel are not part of the state.
\<close>

definition renderConversationsList ::
  "(string \<Rightarrow> string) \<Rightarrow> int \<Rightarrow> conversation list \<Rightarrow> (string \<rightharpoonup> string) \<Rightarrow> bool
     \<Rightarrow> page_state \<Rightarrow> page_state option" where
  "renderConversationsList toLowerCase now convs states appendMode s =
     (let filteredConversations = filterConversations toLowerCase (filters s) now convs states
      in if filteredConversations = [] \<and> \<not> appendMode then Some s
         else (case conversationsList s of
                 None \<Rightarrow> None
               | Some shown \<Rightarrow>
                   Some (s\<lparr>conversationsList :=
                     Some (if appendMode then shown @ filteredConversations
                           else filteredConversations)\<rparr>)))"

definition loadMoreConversations_begin :: "page_state \<Rightarrow> page_request option \<times> page_state" where
  "loadMoreConversations_begin s =
     (if isLoading (pagination s) \<or> \<not> hasMore (pagination s) then (None, s)
      else
        (Some \<lparr>rq_page = currentPage (pagination s), rq_limit = limit (pagination s)\<rparr>,
         s\<lparr>pagination := (pagination s)\<lparr>isLoading := True\<rparr>\<rparr>))"

text \<open>
  The awaited value is the pair of the page of conversations and the states
  (\<^verbatim>\<open>statesData?.activeStates || {}\<close>, \<open>None\<close> when it is missing); the promise is
  rejected when either fetch throws. The state service is the store of the values
  handed to it.
\<close>

definition loadMoreConversations_resume ::
  "(string \<Rightarrow> string) \<Rightarrow> int
     \<Rightarrow> (conversations_response \<times> (string \<rightharpoonup> string) option) settled
     \<Rightarrow> page_state \<Rightarrow> page_state" where
  "loadMoreConversations_resume toLowerCase now outcome s =
     (let s' =
        (case outcome of
           Rejected \<Rightarrow> s\<lparr>svcError := Some ''Failed to load more conversations''\<rparr>
         | Fulfilled (conversationsData, statesData) \<Rightarrow>
             let s1 = s\<lparr>pagination := (pagination s)
                        \<lparr>hasMore := pi_hasMore (cr_pagination conversationsData),
                         currentPage := pi_page (cr_pagination conversationsData) + 1\<rparr>\<rparr>;
                 newConversations = conversations conversationsData;
                 s2 = s1\<lparr>loadedConversations := loadedConversations s1 @ newConversations\<rparr>;
                 activeSt = (case statesData of None \<Rightarrow> Map.empty | Some m \<Rightarrow> m);
                 s3 = s2\<lparr>svcConversations := loadedConversations s2,
                         svcConversationStates := activeSt\<rparr>;
                 isInitialLoad = (pi_page (cr_pagination conversationsData) = 0)
             in (case renderConversationsList toLowerCase now
                        (if isInitialLoad then loadedConversations s3 else newConversations)
                        activeSt (\<not> isInitialLoad) s3 of
                   None \<Rightarrow> s3\<lparr>svcError := Some ''Failed to load more conversations''\<rparr>
                 | Some s4 \<Rightarrow> s4))
      in s'\<lparr>pagination := (pagination s')\<lparr>isLoading := False\<rparr>\<rparr>)"

section \<open>Loading pages of messages\<close>

record messages_request =
  mq_conversationId :: string
  mq_page :: int
  mq_limit :: int

text \<open>
  The value of \<^verbatim>\<open>cachedFetch\<close> for a page of messages: \<open>None\<close> is a falsy body;
  \<open>messages\<close> and \<open>mr_pagination\<close> are \<open>None\<close> where the body lacks the field.
\<close>

record messages_response =
  messages :: "message list option"
  mr_pagination :: "page_info option"

definition loadMoreMessages_begin ::
  "string \<Rightarrow> bool \<Rightarrow> page_state \<Rightarrow> messages_request option \<times> page_state" where
  "loadMoreMessages_begin cid isInitialLoad s =
     (case messagesContent s of
        None \<Rightarrow> (None, s)
      | Some _ \<Rightarrow>
          if isLoading (messagesPagination s) \<or> \<not> hasMore (messagesPagination s) then (None, s)
          else if conversationId (messagesPagination s) \<noteq> Some cid then (None, s)
          else
            let s1 = s\<lparr>messagesPagination := (messagesPagination s)\<lparr>isLoading := True\<rparr>\<rparr>;
                s2 = (if isInitialLoad then s1\<lparr>messagesContent := Some LoadingMessages\<rparr>
                      else showMessagesLoadingIndicator True s1)
            in (Some \<lparr>mq_conversationId = cid,
                      mq_page = currentPage (messagesPagination s),
                      mq_limit = limit (messagesPagination s)\<rparr>, s2))"

text \<open>
  The remainder of \<^verbatim>\<open>loadMoreMessages(conversationId, isInitialLoad)\<close>; both
  arguments are the ones of the call that issued the request. The element
  \<^verbatim>\<open>messagesContent\<close> was found before the request was issued.
\<close>

definition loadMoreMessages_resume ::
  "string \<Rightarrow> bool \<Rightarrow> messages_response option settled \<Rightarrow> page_state \<Rightarrow> page_state" where
  "loadMoreMessages_resume cid isInitialLoad outcome s =
     (let s' =
        (case outcome of
           Rejected \<Rightarrow>
             if isInitialLoad then s\<lparr>messagesContent := Some (MessagesError cid)\<rparr> else s
         | Fulfilled messagesData \<Rightarrow>
             (case (case messagesData of None \<Rightarrow> None | Some d \<Rightarrow> messages d) of
                Some fetched \<Rightarrow>
                  let s1 =
                        (case (case messagesData of None \<Rightarrow> None | Some d \<Rightarrow> mr_pagination d) of
                           Some pg \<Rightarrow>
                             s\<lparr>messagesPagination := (messagesPagination s)
                                 \<lparr>hasMore := pi_hasMore pg, currentPage := pi_page pg + 1\<rparr>\<rparr>
                         | None \<Rightarrow>
                             s\<lparr>messagesPagination := (messagesPagination s)
                                 \<lparr>hasMore := False, currentPage := 1\<rparr>\<rparr>);
                      existingMessages =
                        (if isInitialLoad then fetched else fetched @ cachedMessages s1 cid);
                      s2 = s1\<lparr>loadedMessages := (loadedMessages s1)(cid \<mapsto> existingMessages)\<rparr>
                  in renderCachedMessages existingMessages (\<not> isInitialLoad) s2
              | None \<Rightarrow>
                  if isInitialLoad then s\<lparr>messagesContent := Some NoMessagesFound\<rparr> else s));
          s'' = s'\<lparr>messagesPagination := (messagesPagination s')\<lparr>isLoading := False\<rparr>\<rparr>
      in if \<not> isInitialLoad then showMessagesLoadingIndicator False s'' else s'')"

text \<open>
  \<^verbatim>\<open>loadConversationMessages(conversationId)\<close> up to the \<^verbatim>\<open>await\<close> inside
  \<^verbatim>\<open>loadMoreMessages\<close>, and \<^verbatim>\<open>selectConversation(conversationId)\<close> likewise (the
  sidebar highlight and the banner are not part of the state).
\<close>

definition loadConversationMessages_begin ::
  "string \<Rightarrow> page_state \<Rightarrow> messages_request option \<times> page_state" where
  "loadConversationMessages_begin cid s =
     loadMoreMessages_begin cid True
       (s\<lparr>messagesPagination :=
            \<lparr>currentPage = 0, limit = 10, hasMore = True, isLoading = False,
             conversationId = Some cid\<rparr>,
          loadedMessages := (loadedMessages s)(cid := None)\<rparr>)"

definition selectConversation_begin ::
  "string \<Rightarrow> page_state \<Rightarrow> messages_request option \<times> page_state" where
  "selectConversation_begin cid s =
     loadConversationMessages_begin cid (s\<lparr>selectedConversationId := Some cid\<rparr>)"

text \<open>
  \<^verbatim>\<open>loadConversationsData()\<close> up to the \<^verbatim>\<open>await\<close> inside
  \<^verbatim>\<open>loadMoreConversations\<close>: it replaces the conversation cursor by a fresh one, empties
  the accumulated list, the message cache and the list element, and loads the first
  page. What follows its \<^verbatim>\<open>await\<close> only writes to the log, so the request it issued
  is settled by \<open>loadMoreConversations_resume\<close>.
\<close>

definition loadConversationsData_begin :: "page_state \<Rightarrow> page_request option \<times> page_state" where
  "loadConversationsData_begin s =
     loadMoreConversations_begin
       (s\<lparr>pagination := \<lparr>currentPage = 0, limit = 10, hasMore = True, isLoading = False\<rparr>,
          loadedConversations := [],
          loadedMessages := Map.empty,
          conversationsList := (case conversationsList s of None \<Rightarrow> None | Some _ \<Rightarrow> Some [])\<rparr>)"

text \<open>
  \<^verbatim>\<open>refreshFromBeginning()\<close> empties the same caches, resets the same cursor and calls
  \<^verbatim>\<open>loadConversationsData\<close>; \<^verbatim>\<open>updateFilter(filterName, value)\<close> and
  \<^verbatim>\<open>clearAllFilters()\<close> set the filters and call it.
\<close>

definition refreshFromBeginning_begin :: "page_state \<Rightarrow> page_request option \<times> page_state" where
  "refreshFromBeginning_begin s =
     loadConversationsData_begin
       (s\<lparr>loadedConversations := [],
          loadedMessages := Map.empty,
          pagination := \<lparr>currentPage = 0, limit = 10, hasMore = True, isLoading = False\<rparr>,
          conversationsList := (case conversationsList s of None \<Rightarrow> None | Some _ \<Rightarrow> Some [])\<rparr>)"

datatype filter_name = StatusFilter | TimeRangeFilter | SearchFilter

definition updateFilter_begin ::
  "filter_name \<Rightarrow> string \<Rightarrow> page_state \<Rightarrow> page_request option \<times> page_state" where
  "updateFilter_begin filterName v s =
     refreshFromBeginning_begin
       (s\<lparr>filters :=
            (case filterName of
               StatusFilter \<Rightarrow> (filters s)\<lparr>status := v\<rparr>
             | TimeRangeFilter \<Rightarrow> (filters s)\<lparr>timeRange := v\<rparr>
             | SearchFilter \<Rightarrow> (filters s)\<lparr>search := v\<rparr>)\<rparr>)"

definition clearAllFilters_begin :: "page_state \<Rightarrow> page_request option \<times> page_state" where
  "clearAllFilters_begin s =
     refreshFromBeginning_begin
       (s\<lparr>filters := \<lparr>status = ''all'', timeRange = ''7d'', search = []\<rparr>\<rparr>)"

section \<open>Runs of the page\<close>

text \<open>
  The page together with the requests that have been issued and have not settled yet.
  A pending message request remembers the arguments of the call that issued it, as
  the closure of the \<^verbatim>\<open>async\<close> method does. An event is a call of one of the entry
  points of the page (a scroll that asks for more, a click on a conversation, a retry, a
  reload, a change of filter, a pushed message) or the settling of one of the pending
  requests, chosen by its position: requests settle in any order.
\<close>

record system =
  page :: page_state
  pendingConversations :: "page_request list"
  pendingMessages :: "(string \<times> bool \<times> messages_request) list"

datatype event =
    AttemptConversations
  | ReloadConversations
  | UpdateFilter filter_name string
  | ClearAllFilters
  | SettleConversations nat int "(conversations_response \<times> (string \<rightharpoonup> string) option) settled"
  | AttemptMessages string bool
  | SelectConversation string
  | RetryMessages string
  | SettleMessages nat "messages_response option settled"
  | PushMessage string message

definition issuedConversations :: "system \<Rightarrow> page_request option \<times> page_state \<Rightarrow> system" where
  "issuedConversations sys r =
     (case r of
        (None, s') \<Rightarrow> sys\<lparr>page := s'\<rparr>
      | (Some rq, s') \<Rightarrow>
          sys\<lparr>page := s', pendingConversations := pendingConversations sys @ [rq]\<rparr>)"

definition issuedMessages ::
  "system \<Rightarrow> string \<Rightarrow> bool \<Rightarrow> messages_request option \<times> page_state \<Rightarrow> system" where
  "issuedMessages sys cid isInitialLoad r =
     (case r of
        (None, s') \<Rightarrow> sys\<lparr>page := s'\<rparr>
      | (Some rq, s') \<Rightarrow>
          sys\<lparr>page := s', pendingMessages := pendingMessages sys @ [(cid, isInitialLoad, rq)]\<rparr>)"

fun step :: "(string \<Rightarrow> string) \<Rightarrow> system \<Rightarrow> event \<Rightarrow> system" where
  "step toLowerCase sys AttemptConversations =
     issuedConversations sys (loadMoreConversations_begin (page sys))"
| "step toLowerCase sys ReloadConversations =
     issuedConversations sys (loadConversationsData_begin (page sys))"
| "step toLowerCase sys (UpdateFilter filterName v) =
     issuedConversations sys (updateFilter_begin filterName v (page sys))"
| "step toLowerCase sys ClearAllFilters =
     issuedConversations sys (clearAllFilters_begin (page sys))"
| "step toLowerCase sys (SettleConversations i now outcome) =
     (if i < length (pendingConversations sys) then
        sys\<lparr>page := loadMoreConversations_resume toLowerCase now outcome (page sys),
            pendingConversations :=
              take i (pendingConversations sys) @ drop (Suc i) (pendingConversations sys)\<rparr>
      else sys)"
| "step toLowerCase sys (AttemptMessages cid isInitialLoad) =
     issuedMessages sys cid isInitialLoad (loadMoreMessages_begin cid isInitialLoad (page sys))"
| "step toLowerCase sys (SelectConversation cid) =
     issuedMessages sys cid True (selectConversation_begin cid (page sys))"
| "step toLowerCase sys (RetryMessages cid) =
     issuedMessages sys cid True (loadConversationMessages_begin cid (page sys))"
| "step toLowerCase sys (SettleMessages i outcome) =
     (if i < length (pendingMessages sys) then
        (case pendingMessages sys ! i of
           (cid, isInitialLoad, rq) \<Rightarrow>
             sys\<lparr>page := loadMoreMessages_resume cid isInitialLoad outcome (page sys),
                 pendingMessages :=
                   take i (pendingMessages sys) @ drop (Suc i) (pendingMessages sys)\<rparr>)
      else sys)"
| "step toLowerCase sys (PushMessage cid message) =
     sys\<lparr>page := handleNewMessage cid message (page sys)\<rparr>"

definition run :: "(string \<Rightarrow> string) \<Rightarrow> system \<Rightarrow> event list \<Rightarrow> system" where
  "run toLowerCase sys evs = foldl (step toLowerCase) sys evs"


fun resetsMessages :: "event \<Rightarrow> bool" where
  "resetsMessages (SelectConversation cid) = True"
| "resetsMessages (RetryMessages cid) = True"
| "resetsMessages ev = False"



text \<open>The state a freshly constructed page is in once its markup is in place.\<close>

definition initialPage :: page_state where
  "initialPage =
     \<lparr>selectedConversationId = None,
      filters = \<lparr>status = ''all'', timeRange = ''7d'', search = []\<rparr>,
      pagination = \<lparr>currentPage = 0, limit = 10, hasMore = True, isLoading = False\<rparr>,
      messagesPagination =
        \<lparr>currentPage = 0, limit = 10, hasMore = True, isLoading = False, conversationId = None\<rparr>,
      loadedConversations = [],
      loadedMessages = Map.empty,
      messagesContent = Some Placeholder,
      conversationsList = Some [],
      svcConversations = [],
      svcConversationStates = Map.empty,
      svcError = None\<rparr>"

definition initialSystem :: system where
  "initialSystem = \<lparr>page = initialPage, pendingConversations = [], pendingMessages = []\<rparr>"

section \<open>The data service: cachedFetch\<close>

record 'd cache_entry =
  ce_data :: 'd
  ce_timestamp :: int

text \<open>
  The options the callers pass: nothing, or \<^verbatim>\<open>{ cacheDuration }\<close>.
  \<^verbatim>\<open>JSON.stringify\<close> prints them as \<^verbatim>\<open>{}\<close> or \<^verbatim>\<open>{"cacheDuration":n}\<close>.
\<close>

record fetch_options =
  cacheDuration :: "nat option"

definition digitChar :: "nat \<Rightarrow> char" where
  "digitChar d = ''0123456789'' ! (d mod 10)"

function showNat :: "nat \<Rightarrow> string" where
  "showNat n = (if n < 10 then [digitChar n] else showNat (n div 10) @ [digitChar (n mod 10)])"
  by pat_completeness auto
termination
  by (relation "measure id") auto

declare showNat.simps [simp del]

definition JSON_stringify :: "fetch_options \<Rightarrow> string" where
  "JSON_stringify options =
     (case cacheDuration options of
        None \<Rightarrow> ''{}''
      | Some n \<Rightarrow> [CHR ''{'', CHR 0x22] @ ''cacheDuration'' @ [CHR 0x22, CHR '':''] @ showNat n @ ''}'')"

definition cacheKey :: "string \<Rightarrow> fetch_options \<Rightarrow> string" where
  "cacheKey endpoint options = endpoint @ ''_'' @ JSON_stringify options"

text \<open>
  What \<^verbatim>\<open>fetch\<close> and \<^verbatim>\<open>response.json()\<close> do: \<open>FetchThrows msg\<close> when \<^verbatim>\<open>fetch\<close>
  rejects, otherwise the response with its \<^verbatim>\<open>ok\<close> flag, its status and its body
  (\<open>Inl msg\<close> when parsing the body throws).
\<close>

datatype 'd fetch_outcome =
    FetchThrows string
  | Response bool nat "string + 'd"

text \<open>
  \<^verbatim>\<open>cachedFetch(endpoint, options)\<close> on the cache \<^verbatim>\<open>this.cache\<close>, at time \<open>now\<close>
  (\<^verbatim>\<open>Date.now()\<close>), with the outcome the network has for the request. The result is
  the returned data, or \<open>Inl\<close> the message of the error thrown, and the cache afterwards.
\<close>

definition cachedFetch ::
  "string \<Rightarrow> fetch_options \<Rightarrow> int \<Rightarrow> 'd fetch_outcome \<Rightarrow> (string \<rightharpoonup> 'd cache_entry)
     \<Rightarrow> (string + 'd) \<times> (string \<rightharpoonup> 'd cache_entry)" where
  "cachedFetch endpoint options now net cache =
     (let key = cacheKey endpoint options;
          duration = (case cacheDuration options of
                        None \<Rightarrow> 30000
                      | Some d \<Rightarrow> if d = 0 then 30000 else int d);
          fresh = (case cache key of
                     None \<Rightarrow> None
                   | Some cached \<Rightarrow>
                       if now - ce_timestamp cached < duration then Some (ce_data cached) else None);
          caught = (\<lambda>msg. case cache key of
                             Some cached \<Rightarrow> (Inr (ce_data cached), cache)
                           | None \<Rightarrow> (Inl msg, cache))
      in case fresh of
           Some d \<Rightarrow> (Inr d, cache)
         | None \<Rightarrow>
             (case net of
                FetchThrows msg \<Rightarrow> caught msg
              | Response ok st body \<Rightarrow>
                  if \<not> ok then caught (''HTTP error! status: '' @ showNat st)
                  else (case body of
                          Inl msg \<Rightarrow> caught msg
                        | Inr d \<Rightarrow>
                            (Inr d, cache(key \<mapsto> \<lparr>ce_data = d, ce_timestamp = now\<rparr>)))))"

section \<open>Scenario states\<close>

definition messageAt :: "string \<Rightarrow> string \<Rightarrow> string \<Rightarrow> message" where
  "messageAt i r t = \<lparr>msg_id = Some i, role = r, timestamp = t, content = []\<rparr>"

definition fiveMessages :: "message list" where
  "fiveMessages =
     [messageAt ''a1'' ''user'' ''t1'', messageAt ''a2'' ''assistant'' ''t2'', messageAt ''a3'' ''user'' ''t3'',
      messageAt ''a4'' ''assistant'' ''t4'', messageAt ''a5'' ''user'' ''t5'']"

definition pageOfA :: "messages_response option settled" where
  "pageOfA = Fulfilled (Some \<lparr>messages = Some fiveMessages,
                              mr_pagination = Some \<lparr>pi_page = 0, pi_hasMore = False\<rparr>\<rparr>)"

text \<open>Conversation A is selected and its only page of five messages has arrived.\<close>

definition afterLoadA :: page_state where
  "afterLoadA =
     loadMoreMessages_resume ''A'' True pageOfA (snd (selectConversation_begin ''A'' initialPage))"

text \<open>
  Conversation A is selected, and conversation B is selected before the page of A has
  arrived: both requests are pending.
\<close>

definition switchedToB :: page_state where
  "switchedToB =
     snd (selectConversation_begin ''B'' (snd (selectConversation_begin ''A'' initialPage)))"

text \<open>The page of conversation B, which holds two messages.\<close>

definition pageOfB :: "messages_response option settled" where
  "pageOfB = Fulfilled (Some \<lparr>messages = Some [messageAt ''b1'' ''user'' ''u1'',
                                                 messageAt ''b2'' ''assistant'' ''u2''],
                              mr_pagination = Some \<lparr>pi_page = 0, pi_hasMore = True\<rparr>\<rparr>)"

text \<open>Conversation A is selected and its first page has arrived; the server has older pages.\<close>

definition morePagesOfA :: page_state where
  "morePagesOfA =
     loadMoreMessages_resume ''A'' True
       (Fulfilled (Some \<lparr>messages = Some fiveMessages,
                         mr_pagination = Some \<lparr>pi_page = 0, pi_hasMore = True\<rparr>\<rparr>))
       (snd (selectConversation_begin ''A'' initialPage))"

definition olderMessages :: "message list" where
  "olderMessages = [messageAt ''z1'' ''user'' ''s1'', messageAt ''z2'' ''assistant'' ''s2'']"

definition olderPage :: messages_response where
  "olderPage = \<lparr>messages = Some olderMessages,
                mr_pagination = Some \<lparr>pi_page = 1, pi_hasMore = False\<rparr>\<rparr>"

text \<open>A first page of conversation A that says there are older messages.\<close>

definition laterPageOfA :: "messages_response option settled" where
  "laterPageOfA = Fulfilled (Some \<lparr>messages = Some fiveMessages,
                                   mr_pagination = Some \<lparr>pi_page = 0, pi_hasMore = True\<rparr>\<rparr>)"

text \<open>A page of messages without pagination metadata.\<close>

definition unpagedPage :: messages_response where
  "unpagedPage = \<lparr>messages = Some fiveMessages, mr_pagination = None\<rparr>"

text \<open>A page whose message cursor is scoped to conversation A, with nothing pending.\<close>

definition readyForA :: system where
  "readyForA =
     \<lparr>page = initialPage\<lparr>selectedConversationId := Some ''A'',
         messagesPagination := \<lparr>currentPage = 0, limit = 10, hasMore = True, isLoading = False,
                                conversationId = Some ''A''\<rparr>\<rparr>,
      pendingConversations = [], pendingMessages = []\<rparr>"

text \<open>
  What \<^verbatim>\<open>toLowerCase\<close> does on a string of ASCII characters: the letters A to Z are
  replaced by a to z. The scenarios below use ASCII strings only.
\<close>

definition asciiToLowerChar :: "char \<Rightarrow> char" where
  "asciiToLowerChar c =
     (let n = (of_char c :: nat) in if 65 \<le> n \<and> n \<le> 90 then char_of (n + 32) else c)"

definition asciiToLowerCase :: "string \<Rightarrow> string" where
  "asciiToLowerCase s = map asciiToLowerChar s"

text \<open>Four conversations, their states, and a filter setting with all three filters on.\<close>

definition conversationAt :: "string \<Rightarrow> string \<Rightarrow> int \<Rightarrow> conversation" where
  "conversationAt i t lm = \<lparr>conv_id = i, title = Some t, project = None, lastMessage = None,
                   lastModified = Some lm, messageCount = 0\<rparr>"








text \<open>
  A conversations response that reports page 3, and two pages of ten and of seven
  conversations.
\<close>

definition reportsPage3 :: conversations_response where
  "reportsPage3 = \<lparr>conversations = [], cr_pagination = \<lparr>pi_page = 3, pi_hasMore = True\<rparr>\<rparr>"

definition tenConversations :: conversations_response where
  "tenConversations =
     \<lparr>conversations = replicate 10 (conversationAt ''c'' ''chat'' 0),
      cr_pagination = \<lparr>pi_page = 0, pi_hasMore = True\<rparr>\<rparr>"

definition sevenConversations :: conversations_response where
  "sevenConversations =
     \<lparr>conversations = replicate 7 (conversationAt ''d'' ''chat'' 0),
      cr_pagination = \<lparr>pi_page = 1, pi_hasMore = False\<rparr>\<rparr>"

text \<open>
  The endpoint of the first page of conversations, the options
  \<^verbatim>\<open>getConversationsPaginated\<close> passes while the push channel is connected and while
  it is not, and a cache filled while it was connected.
\<close>

definition conversationsEndpoint :: string where
  "conversationsEndpoint = ''/api/conversations?page=0&limit=10''"

definition realTimeOptions :: fetch_options where
  "realTimeOptions = \<lparr>cacheDuration = Some 30000\<rparr>"

definition pollingOptions :: fetch_options where
  "pollingOptions = \<lparr>cacheDuration = Some 5000\<rparr>"

definition cachedWhileRealTime :: "string \<rightharpoonup> string cache_entry" where
  "cachedWhileRealTime =
     [cacheKey conversationsEndpoint realTimeOptions \<mapsto> \<lparr>ce_data = ''page 0'', ce_timestamp = 0\<rparr>]"

section \<open>Helper facts\<close>

lemma cachedMessages_update:
  "cachedMessages (s\<lparr>loadedMessages := (loadedMessages s)(cid \<mapsto> ms)\<rparr>) c =
     (if c = cid then ms else cachedMessages s c)"
  by (simp add: cachedMessages_def)

lemma renderCachedMessages_fields:
  "loadedMessages (renderCachedMessages ms p s) = loadedMessages s"
  "selectedConversationId (renderCachedMessages ms p s) = selectedConversationId s"
  "messagesPagination (renderCachedMessages ms p s) = messagesPagination s"
  "pagination (renderCachedMessages ms p s) = pagination s"
  "loadedConversations (renderCachedMessages ms p s) = loadedConversations s"
  by (simp_all add: renderCachedMessages_def split: option.splits)

lemma cachedMessages_render:
  "cachedMessages (renderCachedMessages ms p s) c = cachedMessages s c"
  by (simp add: cachedMessages_def renderCachedMessages_fields)

lemma sameMessage_refl: "sameMessage m m"
  by (simp add: sameMessage_def)

lemma handleNewMessage_cached:
  "cachedMessages (handleNewMessage cid m s) c =
     (if selectedConversationId s = Some cid \<and> c = cid
         \<and> \<not> list_ex (sameMessage m) (cachedMessages s cid)
      then cachedMessages s cid @ [m] else cachedMessages s c)"
  by (simp add: handleNewMessage_def Let_def cachedMessages_render cachedMessages_update)

lemma handleNewMessage_selected:
  "selectedConversationId (handleNewMessage cid m s) = selectedConversationId s"
  by (simp add: handleNewMessage_def Let_def renderCachedMessages_fields)

lemma handleNewMessage_twice:
  "handleNewMessage cid m (handleNewMessage cid m s) = handleNewMessage cid m s"
proof -
  let ?t = "handleNewMessage cid m s"
  have "selectedConversationId ?t \<noteq> Some cid \<or> list_ex (sameMessage m) (cachedMessages ?t cid)"
    by (auto simp add: handleNewMessage_selected handleNewMessage_cached sameMessage_refl list_ex_iff)
  then show ?thesis
    by (subst handleNewMessage_def) (auto simp add: Let_def)
qed

lemma list_ex_sameMessage:
  "list_ex (sameMessage m) ms \<longleftrightarrow>
     (\<exists>msg \<in> set ms. msg_id msg = msg_id m \<or> (timestamp msg = timestamp m \<and> role msg = role m))"
  by (simp add: list_ex_iff sameMessage_def)

lemma handleNewMessage_duplicate:
  "list_ex (sameMessage m) (cachedMessages s cid) \<Longrightarrow> handleNewMessage cid m s = s"
  by (simp add: handleNewMessage_def Let_def)

lemma handleNewMessage_same_id_again:
  assumes "msg_id m' = msg_id m"
    and "selectedConversationId s = Some cid"
    and "\<not> list_ex (sameMessage m) (cachedMessages s cid)"
  shows "handleNewMessage cid m' (handleNewMessage cid m s) = handleNewMessage cid m s"
proof -
  have "cachedMessages (handleNewMessage cid m s) cid = cachedMessages s cid @ [m]"
    using assms by (simp add: handleNewMessage_cached)
  then have "list_ex (sameMessage m') (cachedMessages (handleNewMessage cid m s) cid)"
    using assms(1) by (simp add: sameMessage_def)
  then show ?thesis by (rule handleNewMessage_duplicate)
qed

lemma afterLoadA_eval:
  "selectedConversationId afterLoadA = Some ''A''"
  "loadedMessages afterLoadA ''B'' = None"
  "cachedMessages afterLoadA ''A'' = fiveMessages"
  "messagesPagination afterLoadA =
     \<lparr>currentPage = 1, limit = 10, hasMore = False, isLoading = False,
      conversationId = Some ''A''\<rparr>"
  by (simp_all add: afterLoadA_def pageOfA_def initialPage_def selectConversation_begin_def
      loadConversationMessages_begin_def loadMoreMessages_begin_def
      loadMoreMessages_resume_def renderCachedMessages_def cachedMessages_def Let_def)



lemma showMessagesLoadingIndicator_fields:
  "messagesPagination (showMessagesLoadingIndicator b s) = messagesPagination s"
  "pagination (showMessagesLoadingIndicator b s) = pagination s"
  "loadedMessages (showMessagesLoadingIndicator b s) = loadedMessages s"
  "loadedConversations (showMessagesLoadingIndicator b s) = loadedConversations s"
  "selectedConversationId (showMessagesLoadingIndicator b s) = selectedConversationId s"
  by (simp_all add: showMessagesLoadingIndicator_def split: option.splits messages_view.splits)

lemma renderConversationsList_fields:
  "renderConversationsList toLowerCase now cs st ap s = Some s' \<Longrightarrow>
     pagination s' = pagination s \<and> messagesPagination s' = messagesPagination s
     \<and> loadedConversations s' = loadedConversations s \<and> loadedMessages s' = loadedMessages s"
  by (auto simp add: renderConversationsList_def Let_def split: if_splits option.splits)




lemma loadMoreConversations_begin_Some:
  "loadMoreConversations_begin s = (Some rq, s0) \<longleftrightarrow>
     \<not> isLoading (pagination s) \<and> hasMore (pagination s)
     \<and> rq = \<lparr>rq_page = currentPage (pagination s), rq_limit = limit (pagination s)\<rparr>
     \<and> s0 = s\<lparr>pagination := (pagination s)\<lparr>isLoading := True\<rparr>\<rparr>"
  by (auto simp add: loadMoreConversations_begin_def)

lemma loadMoreConversations_resume_Rejected:
  "loadMoreConversations_resume toLowerCase now Rejected s =
     s\<lparr>svcError := Some ''Failed to load more conversations'',
       pagination := (pagination s)\<lparr>isLoading := False\<rparr>\<rparr>"
  by (simp add: loadMoreConversations_resume_def)

lemma loadMoreConversations_resume_Fulfilled:
  "pagination (loadMoreConversations_resume toLowerCase now (Fulfilled (resp, st)) s) =
     (pagination s)\<lparr>hasMore := pi_hasMore (cr_pagination resp),
                     currentPage := pi_page (cr_pagination resp) + 1,
                     isLoading := False\<rparr>"
  "loadedConversations (loadMoreConversations_resume toLowerCase now (Fulfilled (resp, st)) s) =
     loadedConversations s @ conversations resp"
  "loadedMessages (loadMoreConversations_resume toLowerCase now (Fulfilled (resp, st)) s) = loadedMessages s"
  by (auto simp add: loadMoreConversations_resume_def Let_def
      split: option.splits dest!: renderConversationsList_fields)

lemma loadMoreMessages_begin_Some:
  "loadMoreMessages_begin cid init s = (Some rq, s0) \<Longrightarrow>
     messagesContent s \<noteq> None \<and> messagesContent s0 \<noteq> None
     \<and> \<not> isLoading (messagesPagination s) \<and> hasMore (messagesPagination s)
     \<and> conversationId (messagesPagination s) = Some cid
     \<and> rq = \<lparr>mq_conversationId = cid, mq_page = currentPage (messagesPagination s),
              mq_limit = limit (messagesPagination s)\<rparr>
     \<and> messagesPagination s0 = (messagesPagination s)\<lparr>isLoading := True\<rparr>
     \<and> loadedMessages s0 = loadedMessages s \<and> loadedConversations s0 = loadedConversations s"
  by (auto simp add: loadMoreMessages_begin_def Let_def showMessagesLoadingIndicator_def
      split: option.splits if_splits messages_view.splits)

lemma loadMoreMessages_begin_admit:
  "messagesContent s \<noteq> None \<Longrightarrow> \<not> isLoading (messagesPagination s) \<Longrightarrow>
   hasMore (messagesPagination s) \<Longrightarrow> conversationId (messagesPagination s) = Some cid \<Longrightarrow>
     fst (loadMoreMessages_begin cid init s) =
       Some \<lparr>mq_conversationId = cid, mq_page = currentPage (messagesPagination s),
             mq_limit = limit (messagesPagination s)\<rparr>
     \<and> messagesPagination (snd (loadMoreMessages_begin cid init s))
         = (messagesPagination s)\<lparr>isLoading := True\<rparr>"
  by (auto simp add: loadMoreMessages_begin_def Let_def showMessagesLoadingIndicator_fields
      split: option.splits)

lemma loadMoreMessages_resume_Rejected:
  "messagesPagination (loadMoreMessages_resume cid init Rejected s)
     = (messagesPagination s)\<lparr>isLoading := False\<rparr>"
  "loadedMessages (loadMoreMessages_resume cid init Rejected s) = loadedMessages s"
  "loadedConversations (loadMoreMessages_resume cid init Rejected s) = loadedConversations s"
  "messagesContent s \<noteq> None \<Longrightarrow> messagesContent (loadMoreMessages_resume cid init Rejected s) \<noteq> None"
  by (auto simp add: loadMoreMessages_resume_def Let_def showMessagesLoadingIndicator_def
      split: option.splits messages_view.splits)

lemma loadMoreMessages_resume_Fulfilled:
  "messagesPagination
     (loadMoreMessages_resume cid init
        (Fulfilled (Some \<lparr>messages = Some ms, mr_pagination = pgo\<rparr>)) s) =
     (case pgo of
        Some pg \<Rightarrow> (messagesPagination s)\<lparr>hasMore := pi_hasMore pg,
                      currentPage := pi_page pg + 1, isLoading := False\<rparr>
      | None \<Rightarrow> (messagesPagination s)\<lparr>hasMore := False, currentPage := 1, isLoading := False\<rparr>)"
  "loadedMessages
     (loadMoreMessages_resume cid init
        (Fulfilled (Some \<lparr>messages = Some ms, mr_pagination = pgo\<rparr>)) s) =
     (loadedMessages s)(cid \<mapsto> (if init then ms else ms @ cachedMessages s cid))"
  by (auto simp add: loadMoreMessages_resume_def Let_def showMessagesLoadingIndicator_fields
      renderCachedMessages_fields cachedMessages_def split: option.splits)





lemma loadMoreMessages_resume_merge:
  assumes "messages r = Some fetched"
  shows "loadedMessages (loadMoreMessages_resume cid init (Fulfilled (Some r)) s) =
           (loadedMessages s)(cid \<mapsto> (if init then fetched else fetched @ cachedMessages s cid))"
    and "messagesContent s \<noteq> None \<Longrightarrow>
         messagesContent (loadMoreMessages_resume cid init (Fulfilled (Some r)) s) =
           Some (MessageList (if init then fetched else fetched @ cachedMessages s cid) False)"
    and "messagesPagination (loadMoreMessages_resume cid init (Fulfilled (Some r)) s) =
     (case mr_pagination r of
        Some pg \<Rightarrow> (messagesPagination s)\<lparr>hasMore := pi_hasMore pg,
                      currentPage := pi_page pg + 1, isLoading := False\<rparr>
      | None \<Rightarrow> (messagesPagination s)\<lparr>hasMore := False, currentPage := 1, isLoading := False\<rparr>)"
  using assms
  by (auto simp add: loadMoreMessages_resume_def Let_def showMessagesLoadingIndicator_def
      renderCachedMessages_def cachedMessages_def split: option.splits)

lemma morePagesOfA_eval:
  "cachedMessages morePagesOfA ''A'' = fiveMessages"
  "messagesContent morePagesOfA = Some (MessageList fiveMessages False)"
  "messagesPagination morePagesOfA =
     \<lparr>currentPage = 1, limit = 10, hasMore = True, isLoading = False,
      conversationId = Some ''A''\<rparr>"
  by (simp_all add: morePagesOfA_def initialPage_def selectConversation_begin_def
      loadConversationMessages_begin_def loadMoreMessages_begin_def
      loadMoreMessages_resume_def renderCachedMessages_def cachedMessages_def Let_def)

lemma cachedFetch_cached:
  assumes "cache (cacheKey endpoint options) = Some cached"
    and "(\<exists>msg. net = FetchThrows msg) \<or> (\<exists>st body. net = Response False st body)
         \<or> (\<exists>ok st msg. net = Response ok st (Inl msg))"
  shows "cachedFetch endpoint options now net cache = (Inr (ce_data cached), cache)"
  using assms
  by (auto simp add: cachedFetch_def Let_def split: option.splits fetch_outcome.splits sum.splits)

lemma cachedFetch_no_entry:
  assumes "cache (cacheKey endpoint options) = None"
  shows "cachedFetch endpoint options now (FetchThrows msg) cache = (Inl msg, cache)"
    and "cachedFetch endpoint options now (Response False st body) cache
           = (Inl (''HTTP error! status: '' @ showNat st), cache)"
  using assms by (simp_all add: cachedFetch_def Let_def)

lemma cachedFetch_raises_only_without_entry:
  "fst (cachedFetch endpoint options now net cache) = Inl msg \<Longrightarrow>
     cache (cacheKey endpoint options) = None"
  by (auto simp add: cachedFetch_def Let_def
      split: option.splits fetch_outcome.splits sum.splits if_splits)

lemma cacheKey_eval:
  "cacheKey conversationsEndpoint realTimeOptions
     = ''/api/conversations?page=0&limit=10_{'' @ [CHR 0x22] @ ''cacheDuration'' @ [CHR 0x22] @ '':30000}''"
  "cacheKey conversationsEndpoint pollingOptions
     = ''/api/conversations?page=0&limit=10_{'' @ [CHR 0x22] @ ''cacheDuration'' @ [CHR 0x22] @ '':5000}''"
  by (simp_all add: cacheKey_def conversationsEndpoint_def realTimeOptions_def pollingOptions_def
      JSON_stringify_def showNat.simps digitChar_def)












lemmas begin_defs =
  run_def issuedConversations_def issuedMessages_def initialSystem_def initialPage_def
  selectConversation_begin_def loadConversationMessages_begin_def loadMoreMessages_begin_def
  loadConversationsData_begin_def loadMoreConversations_begin_def Let_def






section \<open>Claims about push events\<close>

text \<open>
  C1: the handler for a pushed message appends it to the cached list of its
  conversation only if no cached message of that conversation has the same id or the
  same timestamp and role: when there is one, the state is left as it is, and the cached
  list afterwards is the old list followed by the message exactly when the conversation
  is the selected one and nothing matches. Delivering the message again changes nothing,
  and a message that was added is not added a second time under the same id, so two
  deliveries make the list one longer (one element, then none).
\<close>

theorem handleNewMessage_appends_once:
  fixes s :: page_state and m m' :: message and cid :: string
  defines "dup \<equiv> (\<exists>msg \<in> set (cachedMessages s cid).
                     msg_id msg = msg_id m \<or> (timestamp msg = timestamp m \<and> role msg = role m))"
  shows "(dup \<longrightarrow> handleNewMessage cid m s = s)
       \<and> cachedMessages (handleNewMessage cid m s) cid =
           (if selectedConversationId s = Some cid \<and> \<not> dup
            then cachedMessages s cid @ [m] else cachedMessages s cid)
       \<and> handleNewMessage cid m (handleNewMessage cid m s) = handleNewMessage cid m s
       \<and> (selectedConversationId s = Some cid \<and> \<not> dup \<and> msg_id m' = msg_id m \<longrightarrow>
            length (cachedMessages (handleNewMessage cid m s) cid)
              = length (cachedMessages s cid) + 1
          \<and> length (cachedMessages (handleNewMessage cid m' (handleNewMessage cid m s)) cid)
              = length (cachedMessages s cid) + 1)"
proof -
  have d: "dup \<longleftrightarrow> list_ex (sameMessage m) (cachedMessages s cid)"
    by (simp add: dup_def list_ex_sameMessage)
  have a: "dup \<longrightarrow> handleNewMessage cid m s = s"
    by (simp add: d handleNewMessage_duplicate)
  have b: "cachedMessages (handleNewMessage cid m s) cid =
           (if selectedConversationId s = Some cid \<and> \<not> dup
            then cachedMessages s cid @ [m] else cachedMessages s cid)"
    by (simp add: d handleNewMessage_cached)
  have c: "handleNewMessage cid m (handleNewMessage cid m s) = handleNewMessage cid m s"
    by (rule handleNewMessage_twice)
  have e: "selectedConversationId s = Some cid \<and> \<not> dup \<and> msg_id m' = msg_id m \<longrightarrow>
            length (cachedMessages (handleNewMessage cid m s) cid)
              = length (cachedMessages s cid) + 1
          \<and> length (cachedMessages (handleNewMessage cid m' (handleNewMessage cid m s)) cid)
              = length (cachedMessages s cid) + 1"
    by (simp add: d handleNewMessage_same_id_again handleNewMessage_cached)
  from a b c e show ?thesis by blast
qed

theorem handleNewMessage_appends_once_witness:
  "selectedConversationId afterLoadA = Some ''A''
   \<and> length (cachedMessages afterLoadA ''A'') = 5
   \<and> cachedMessages (handleNewMessage ''A'' (messageAt ''a6'' ''assistant'' ''t6'') afterLoadA) ''A''
       = fiveMessages @ [messageAt ''a6'' ''assistant'' ''t6'']
   \<and> length (cachedMessages
         (handleNewMessage ''A'' (messageAt ''a6'' ''assistant'' ''t6'')
           (handleNewMessage ''A'' (messageAt ''a6'' ''assistant'' ''t6'') afterLoadA)) ''A'') = 6"
  using handleNewMessage_appends_once
          [where cid = "''A''" and s = afterLoadA and m = "messageAt ''a6'' ''assistant'' ''t6''"
             and m' = "messageAt ''a6'' ''assistant'' ''t6''"]
  by (simp add: afterLoadA_eval fiveMessages_def messageAt_def)

text \<open>
  C3: a \<^verbatim>\<open>new_message\<close> event for a conversation other than the selected one has
  no effect at all: the handler returns the state it was given, so no cached message
  list is created or changed, for the event's conversation or for the selected one.
\<close>

theorem handleNewMessage_other_conversation_ignored:
  "selectedConversationId s \<noteq> Some cid \<Longrightarrow> handleNewMessage cid m s = s"
  by (simp add: handleNewMessage_def)

theorem handleNewMessage_other_conversation_ignored_witness:
  "selectedConversationId afterLoadA \<noteq> Some ''B''
   \<and> handleNewMessage ''B'' (messageAt ''b1'' ''user'' ''t9'') afterLoadA = afterLoadA
   \<and> loadedMessages (handleNewMessage ''B'' (messageAt ''b1'' ''user'' ''t9'') afterLoadA) ''B'' = None
   \<and> length (cachedMessages (handleNewMessage ''B'' (messageAt ''b1'' ''user'' ''t9'') afterLoadA) ''A'') = 5"
  using handleNewMessage_other_conversation_ignored
          [where s = afterLoadA and cid = "''B''" and m = "messageAt ''b1'' ''user'' ''t9''"]
  by (simp add: afterLoadA_eval fiveMessages_def)

section \<open>Claims about superseded fetches\<close>

text \<open>
  C2 asks that the result of a message fetch whose conversation was superseded while
  the fetch was pending is discarded. The code checks the conversation of the cursor
  before it issues the request and not again when the result arrives. Here conversation
  A is selected, then conversation B while the request for A is pending, and then the
  page of A arrives: it is stored in the cache under A, it is written into the cursor
  that now belongs to B (page 1, nothing more to load, not loading, while the request
  for B is still pending), and it replaces what the message pane shows. When the page of
  B arrives first and the page of A after it, the pane is left showing the messages of A
  while B is selected, and the cursor of B says that B has no older messages.
\<close>

theorem stale_messages_result_is_merged:
  "fst (selectConversation_begin ''A'' initialPage)
     = Some \<lparr>mq_conversationId = ''A'', mq_page = 0, mq_limit = 10\<rparr>
   \<and> selectedConversationId switchedToB = Some ''B''
   \<and> messagesPagination switchedToB =
       \<lparr>currentPage = 0, limit = 10, hasMore = True, isLoading = True,
        conversationId = Some ''B''\<rparr>
   \<and> loadedMessages switchedToB ''A'' = None
   \<and> messagesContent switchedToB = Some LoadingMessages
   \<and> loadedMessages (loadMoreMessages_resume ''A'' True pageOfA switchedToB) ''A''
       = Some fiveMessages
   \<and> messagesPagination (loadMoreMessages_resume ''A'' True pageOfA switchedToB) =
       \<lparr>currentPage = 1, limit = 10, hasMore = False, isLoading = False,
        conversationId = Some ''B''\<rparr>
   \<and> messagesContent (loadMoreMessages_resume ''A'' True pageOfA switchedToB)
       = Some (MessageList fiveMessages False)
   \<and> selectedConversationId
        (loadMoreMessages_resume ''A'' True pageOfA
           (loadMoreMessages_resume ''B'' True pageOfB switchedToB)) = Some ''B''
   \<and> messagesContent
        (loadMoreMessages_resume ''A'' True pageOfA
           (loadMoreMessages_resume ''B'' True pageOfB switchedToB))
       = Some (MessageList fiveMessages False)
   \<and> messagesPagination
        (loadMoreMessages_resume ''A'' True pageOfA
           (loadMoreMessages_resume ''B'' True pageOfB switchedToB)) =
       \<lparr>currentPage = 1, limit = 10, hasMore = False, isLoading = False,
        conversationId = Some ''B''\<rparr>"
  by (simp add: switchedToB_def pageOfA_def pageOfB_def initialPage_def
      selectConversation_begin_def loadConversationMessages_begin_def
      loadMoreMessages_begin_def loadMoreMessages_resume_def renderCachedMessages_def
      cachedMessages_def Let_def)

section \<open>Claims about pagination, filtering and the fetch cache\<close>




text \<open>
  C5: when the fetch of a page fails, the cursor is not loading afterwards and its page,
  \<open>hasMore\<close> and limit are what they were, and the conversations and messages loaded so
  far are kept; this holds for both cursors. After a load that was admitted and failed,
  the cursor is as before the load, the same call issues the same request again, and
  when that request succeeds with the page that was asked for, the page of the cursor is
  one more than before.
\<close>

theorem failed_load_rolls_back:
  "(let s1 = loadMoreConversations_resume toLowerCase now Rejected s
    in \<not> isLoading (pagination s1)
       \<and> currentPage (pagination s1) = currentPage (pagination s)
       \<and> hasMore (pagination s1) = hasMore (pagination s)
       \<and> limit (pagination s1) = limit (pagination s)
       \<and> loadedConversations s1 = loadedConversations s
       \<and> loadedMessages s1 = loadedMessages s)
   \<and> (let s1 = loadMoreMessages_resume cid isInitialLoad Rejected s
      in \<not> isLoading (messagesPagination s1)
         \<and> currentPage (messagesPagination s1) = currentPage (messagesPagination s)
         \<and> hasMore (messagesPagination s1) = hasMore (messagesPagination s)
         \<and> limit (messagesPagination s1) = limit (messagesPagination s)
         \<and> conversationId (messagesPagination s1) = conversationId (messagesPagination s)
         \<and> loadedConversations s1 = loadedConversations s
         \<and> loadedMessages s1 = loadedMessages s)
   \<and> (loadMoreConversations_begin s = (Some rq, s0) \<longrightarrow>
        (let s1 = loadMoreConversations_resume toLowerCase now Rejected s0
         in pagination s1 = pagination s
            \<and> fst (loadMoreConversations_begin s1) = Some rq
            \<and> (\<forall>resp st now'. pi_page (cr_pagination resp) = rq_page rq \<longrightarrow>
                 currentPage (pagination
                   (loadMoreConversations_resume toLowerCase now' (Fulfilled (resp, st))
                      (snd (loadMoreConversations_begin s1))))
                 = currentPage (pagination s) + 1)))
   \<and> (loadMoreMessages_begin cid isInitialLoad s = (Some mrq, s0') \<longrightarrow>
        (let s1 = loadMoreMessages_resume cid isInitialLoad Rejected s0'
         in messagesPagination s1 = messagesPagination s
            \<and> fst (loadMoreMessages_begin cid isInitialLoad s1) = Some mrq
            \<and> (\<forall>ms pg. pi_page pg = mq_page mrq \<longrightarrow>
                 currentPage (messagesPagination
                   (loadMoreMessages_resume cid isInitialLoad
                      (Fulfilled (Some \<lparr>messages = Some ms, mr_pagination = Some pg\<rparr>))
                      (snd (loadMoreMessages_begin cid isInitialLoad s1))))
                 = currentPage (messagesPagination s) + 1)))"
proof -
  have a: "let s1 = loadMoreConversations_resume toLowerCase now Rejected s
    in \<not> isLoading (pagination s1)
       \<and> currentPage (pagination s1) = currentPage (pagination s)
       \<and> hasMore (pagination s1) = hasMore (pagination s)
       \<and> limit (pagination s1) = limit (pagination s)
       \<and> loadedConversations s1 = loadedConversations s
       \<and> loadedMessages s1 = loadedMessages s"
    by (simp add: loadMoreConversations_resume_Rejected)
  have b: "let s1 = loadMoreMessages_resume cid isInitialLoad Rejected s
      in \<not> isLoading (messagesPagination s1)
         \<and> currentPage (messagesPagination s1) = currentPage (messagesPagination s)
         \<and> hasMore (messagesPagination s1) = hasMore (messagesPagination s)
         \<and> limit (messagesPagination s1) = limit (messagesPagination s)
         \<and> conversationId (messagesPagination s1) = conversationId (messagesPagination s)
         \<and> loadedConversations s1 = loadedConversations s
         \<and> loadedMessages s1 = loadedMessages s"
    by (simp add: loadMoreMessages_resume_Rejected)
  have c: "loadMoreConversations_begin s = (Some rq, s0) \<longrightarrow>
        (let s1 = loadMoreConversations_resume toLowerCase now Rejected s0
         in pagination s1 = pagination s
            \<and> fst (loadMoreConversations_begin s1) = Some rq
            \<and> (\<forall>resp st now'. pi_page (cr_pagination resp) = rq_page rq \<longrightarrow>
                 currentPage (pagination
                   (loadMoreConversations_resume toLowerCase now' (Fulfilled (resp, st))
                      (snd (loadMoreConversations_begin s1))))
                 = currentPage (pagination s) + 1))"
    by (auto simp add: loadMoreConversations_begin_Some loadMoreConversations_resume_Rejected
        loadMoreConversations_resume_Fulfilled loadMoreConversations_begin_def)
  have d: "loadMoreMessages_begin cid isInitialLoad s = (Some mrq, s0') \<longrightarrow>
        (let s1 = loadMoreMessages_resume cid isInitialLoad Rejected s0'
         in messagesPagination s1 = messagesPagination s
            \<and> fst (loadMoreMessages_begin cid isInitialLoad s1) = Some mrq
            \<and> (\<forall>ms pg. pi_page pg = mq_page mrq \<longrightarrow>
                 currentPage (messagesPagination
                   (loadMoreMessages_resume cid isInitialLoad
                      (Fulfilled (Some \<lparr>messages = Some ms, mr_pagination = Some pg\<rparr>))
                      (snd (loadMoreMessages_begin cid isInitialLoad s1))))
                 = currentPage (messagesPagination s) + 1))"
  proof
    assume h: "loadMoreMessages_begin cid isInitialLoad s = (Some mrq, s0')"
    note f = loadMoreMessages_begin_Some [OF h]
    let ?s1 = "loadMoreMessages_resume cid isInitialLoad Rejected s0'"
    have p: "messagesPagination ?s1 = messagesPagination s"
      using f by (simp add: loadMoreMessages_resume_Rejected)
    have c1: "messagesContent ?s1 \<noteq> None"
      using f by (simp add: loadMoreMessages_resume_Rejected)
    have adm: "fst (loadMoreMessages_begin cid isInitialLoad ?s1) = Some mrq
       \<and> messagesPagination (snd (loadMoreMessages_begin cid isInitialLoad ?s1))
           = (messagesPagination s)\<lparr>isLoading := True\<rparr>"
      using loadMoreMessages_begin_admit [OF c1, of cid isInitialLoad] f p by simp
    show "let s1 = ?s1 in messagesPagination s1 = messagesPagination s
            \<and> fst (loadMoreMessages_begin cid isInitialLoad s1) = Some mrq
            \<and> (\<forall>ms pg. pi_page pg = mq_page mrq \<longrightarrow>
                 currentPage (messagesPagination
                   (loadMoreMessages_resume cid isInitialLoad
                      (Fulfilled (Some \<lparr>messages = Some ms, mr_pagination = Some pg\<rparr>))
                      (snd (loadMoreMessages_begin cid isInitialLoad s1))))
                 = currentPage (messagesPagination s) + 1)"
      using p adm f by (simp add: Let_def loadMoreMessages_resume_Fulfilled)
  qed
  from a b c d show ?thesis by blast
qed

theorem failed_load_rolls_back_witness:
  "fst (loadMoreConversations_begin initialPage) = Some \<lparr>rq_page = 0, rq_limit = 10\<rparr>
   \<and> pagination (loadMoreConversations_resume asciiToLowerCase 0 Rejected
        (snd (loadMoreConversations_begin initialPage))) = pagination initialPage
   \<and> fst (loadMoreConversations_begin
        (loadMoreConversations_resume asciiToLowerCase 0 Rejected
           (snd (loadMoreConversations_begin initialPage))))
       = Some \<lparr>rq_page = 0, rq_limit = 10\<rparr>
   \<and> currentPage (pagination
        (loadMoreConversations_resume asciiToLowerCase 0 (Fulfilled (tenConversations, None))
           (snd (loadMoreConversations_begin
              (loadMoreConversations_resume asciiToLowerCase 0 Rejected
                 (snd (loadMoreConversations_begin initialPage))))))) = 1
   \<and> fst (loadMoreMessages_begin ''A'' True (page readyForA))
       = Some \<lparr>mq_conversationId = ''A'', mq_page = 0, mq_limit = 10\<rparr>
   \<and> messagesPagination (loadMoreMessages_resume ''A'' True Rejected
        (snd (loadMoreMessages_begin ''A'' True (page readyForA))))
       = messagesPagination (page readyForA)
   \<and> currentPage (messagesPagination
        (loadMoreMessages_resume ''A'' True pageOfA
           (snd (loadMoreMessages_begin ''A'' True
              (loadMoreMessages_resume ''A'' True Rejected
                 (snd (loadMoreMessages_begin ''A'' True (page readyForA)))))))) = 1"
proof -
  have f: "fst (loadMoreConversations_begin initialPage) = Some \<lparr>rq_page = 0, rq_limit = 10\<rparr>"
    by (simp add: loadMoreConversations_begin_def initialPage_def)
  then have b: "loadMoreConversations_begin initialPage =
      (Some \<lparr>rq_page = 0, rq_limit = 10\<rparr>, snd (loadMoreConversations_begin initialPage))"
    by (metis prod.collapse)
  have p: "pi_page (cr_pagination tenConversations) = rq_page \<lparr>rq_page = 0, rq_limit = 10\<rparr>"
    by (simp add: tenConversations_def)
  have c: "currentPage (pagination initialPage) = 0"
    by (simp add: initialPage_def)
  from failed_load_rolls_back
         [where s = initialPage and rq = "\<lparr>rq_page = 0, rq_limit = 10\<rparr>"
            and ?s0.0 = "snd (loadMoreConversations_begin initialPage)" and now = 0
            and toLowerCase = asciiToLowerCase] b
  have "let s1 = loadMoreConversations_resume asciiToLowerCase 0 Rejected
                   (snd (loadMoreConversations_begin initialPage))
        in pagination s1 = pagination initialPage
           \<and> fst (loadMoreConversations_begin s1) = Some \<lparr>rq_page = 0, rq_limit = 10\<rparr>
           \<and> (\<forall>resp st now'.
                 pi_page (cr_pagination resp) = rq_page \<lparr>rq_page = 0, rq_limit = 10\<rparr> \<longrightarrow>
                 currentPage (pagination
                   (loadMoreConversations_resume asciiToLowerCase now' (Fulfilled (resp, st))
                      (snd (loadMoreConversations_begin s1))))
                 = currentPage (pagination initialPage) + 1)"
    by blast
  with f p c have conv: "fst (loadMoreConversations_begin initialPage)
       = Some \<lparr>rq_page = 0, rq_limit = 10\<rparr>
   \<and> pagination (loadMoreConversations_resume asciiToLowerCase 0 Rejected
        (snd (loadMoreConversations_begin initialPage))) = pagination initialPage
   \<and> fst (loadMoreConversations_begin
        (loadMoreConversations_resume asciiToLowerCase 0 Rejected
           (snd (loadMoreConversations_begin initialPage))))
       = Some \<lparr>rq_page = 0, rq_limit = 10\<rparr>
   \<and> currentPage (pagination
        (loadMoreConversations_resume asciiToLowerCase 0 (Fulfilled (tenConversations, None))
           (snd (loadMoreConversations_begin
              (loadMoreConversations_resume asciiToLowerCase 0 Rejected
                 (snd (loadMoreConversations_begin initialPage))))))) = 1"
    by (simp add: Let_def)
  have mf: "fst (loadMoreMessages_begin ''A'' True (page readyForA))
       = Some \<lparr>mq_conversationId = ''A'', mq_page = 0, mq_limit = 10\<rparr>"
    by (simp add: loadMoreMessages_begin_def readyForA_def initialPage_def Let_def)
  then have mb: "loadMoreMessages_begin ''A'' True (page readyForA) =
      (Some \<lparr>mq_conversationId = ''A'', mq_page = 0, mq_limit = 10\<rparr>,
       snd (loadMoreMessages_begin ''A'' True (page readyForA)))"
    by (metis prod.collapse)
  have mc: "currentPage (messagesPagination (page readyForA)) = 0"
    by (simp add: readyForA_def initialPage_def)
  from failed_load_rolls_back
         [where s = "page readyForA" and cid = "''A''" and isInitialLoad = True
            and mrq = "\<lparr>mq_conversationId = ''A'', mq_page = 0, mq_limit = 10\<rparr>"
            and ?s0' = "snd (loadMoreMessages_begin ''A'' True (page readyForA))"] mb
  have "let s1 = loadMoreMessages_resume ''A'' True Rejected
                   (snd (loadMoreMessages_begin ''A'' True (page readyForA)))
        in messagesPagination s1 = messagesPagination (page readyForA)
           \<and> fst (loadMoreMessages_begin ''A'' True s1)
               = Some \<lparr>mq_conversationId = ''A'', mq_page = 0, mq_limit = 10\<rparr>
           \<and> (\<forall>ms pg.
                 pi_page pg = mq_page \<lparr>mq_conversationId = ''A'', mq_page = 0, mq_limit = 10\<rparr> \<longrightarrow>
                 currentPage (messagesPagination
                   (loadMoreMessages_resume ''A'' True
                      (Fulfilled (Some \<lparr>messages = Some ms, mr_pagination = Some pg\<rparr>))
                      (snd (loadMoreMessages_begin ''A'' True s1))))
                 = currentPage (messagesPagination (page readyForA)) + 1)"
    by blast
  with mf mc have msgs: "fst (loadMoreMessages_begin ''A'' True (page readyForA))
       = Some \<lparr>mq_conversationId = ''A'', mq_page = 0, mq_limit = 10\<rparr>
   \<and> messagesPagination (loadMoreMessages_resume ''A'' True Rejected
        (snd (loadMoreMessages_begin ''A'' True (page readyForA))))
       = messagesPagination (page readyForA)
   \<and> currentPage (messagesPagination
        (loadMoreMessages_resume ''A'' True pageOfA
           (snd (loadMoreMessages_begin ''A'' True
              (loadMoreMessages_resume ''A'' True Rejected
                 (snd (loadMoreMessages_begin ''A'' True (page readyForA)))))))) = 1"
    by (simp add: Let_def pageOfA_def)
  from conv msgs show ?thesis by blast
qed

text \<open>
  C6 as stated says that the page of the cursor advances by one on every successful
  load. The code stores the reported page number plus one: a response to the request
  for page 0 that reports page 3 moves the cursor from page 0 to page 4.
\<close>

theorem conversations_page_not_always_next:
  "fst (loadMoreConversations_begin initialPage) = Some \<lparr>rq_page = 0, rq_limit = 10\<rparr>
   \<and> currentPage (pagination initialPage) = 0
   \<and> currentPage (pagination
        (loadMoreConversations_resume asciiToLowerCase 0 (Fulfilled (reportsPage3, None))
           (snd (loadMoreConversations_begin initialPage)))) = 4"
  by (simp add: loadMoreConversations_resume_Fulfilled loadMoreConversations_begin_def
      initialPage_def reportsPage3_def)

text \<open>
  C6, as amended: when a page of conversations arrives, its items are appended to the
  accumulated list, \<open>hasMore\<close> is the value the server sent, the cursor is not loading,
  and the page of the cursor is the page number the server reported plus one; that is
  one more than before when the server reports the page that was requested. Loading
  page 0 with 10 items (\<open>hasMore\<close> true) and then page 1 with 7 items (\<open>hasMore\<close> false)
  gives a list of 17 conversations and page 2.
\<close>

theorem conversations_page_load:
  "(let s1 = loadMoreConversations_resume toLowerCase now (Fulfilled (resp, st)) s
    in loadedConversations s1 = loadedConversations s @ conversations resp
       \<and> hasMore (pagination s1) = pi_hasMore (cr_pagination resp)
       \<and> \<not> isLoading (pagination s1)
       \<and> currentPage (pagination s1) = pi_page (cr_pagination resp) + 1)
   \<and> (loadMoreConversations_begin s = (Some rq, s0)
        \<and> pi_page (cr_pagination resp) = rq_page rq \<longrightarrow>
        currentPage (pagination (loadMoreConversations_resume toLowerCase now (Fulfilled (resp, st)) s0))
          = currentPage (pagination s) + 1
        \<and> loadedConversations (loadMoreConversations_resume toLowerCase now (Fulfilled (resp, st)) s0)
          = loadedConversations s @ conversations resp)
   \<and> (length xs = 10 \<and> length ys = 7 \<longrightarrow>
        (let sA = loadMoreConversations_resume toLowerCase now
                    (Fulfilled (\<lparr>conversations = xs,
                                 cr_pagination = \<lparr>pi_page = 0, pi_hasMore = True\<rparr>\<rparr>, st))
                    (snd (loadMoreConversations_begin initialPage));
             sB = loadMoreConversations_resume toLowerCase now'
                    (Fulfilled (\<lparr>conversations = ys,
                                 cr_pagination = \<lparr>pi_page = 1, pi_hasMore = False\<rparr>\<rparr>, st'))
                    (snd (loadMoreConversations_begin sA))
         in fst (loadMoreConversations_begin initialPage) = Some \<lparr>rq_page = 0, rq_limit = 10\<rparr>
            \<and> fst (loadMoreConversations_begin sA) = Some \<lparr>rq_page = 1, rq_limit = 10\<rparr>
            \<and> length (loadedConversations sB) = 17
            \<and> currentPage (pagination sB) = 2
            \<and> \<not> hasMore (pagination sB) \<and> \<not> isLoading (pagination sB)))"
  by (auto simp add: Let_def loadMoreConversations_resume_Fulfilled loadMoreConversations_begin_Some
      loadMoreConversations_begin_def initialPage_def)

theorem conversations_page_load_witness:
  "length (conversations tenConversations) = 10
   \<and> length (conversations sevenConversations) = 7
   \<and> length (loadedConversations
        (loadMoreConversations_resume asciiToLowerCase 0 (Fulfilled (sevenConversations, None))
           (snd (loadMoreConversations_begin
              (loadMoreConversations_resume asciiToLowerCase 0 (Fulfilled (tenConversations, None))
                 (snd (loadMoreConversations_begin initialPage))))))) = 17
   \<and> currentPage (pagination
        (loadMoreConversations_resume asciiToLowerCase 0 (Fulfilled (sevenConversations, None))
           (snd (loadMoreConversations_begin
              (loadMoreConversations_resume asciiToLowerCase 0 (Fulfilled (tenConversations, None))
                 (snd (loadMoreConversations_begin initialPage))))))) = 2"
proof -
  have l: "length (replicate 10 (conversationAt ''c'' ''chat'' 0)) = 10
       \<and> length (replicate 7 (conversationAt ''d'' ''chat'' 0)) = 7"
    by simp
  from conversations_page_load
         [where xs = "replicate 10 (conversationAt ''c'' ''chat'' 0)"
            and ys = "replicate 7 (conversationAt ''d'' ''chat'' 0)"
            and now = 0 and now' = 0 and st = None and st' = None
            and toLowerCase = asciiToLowerCase] l
  have "let sA = loadMoreConversations_resume asciiToLowerCase 0 (Fulfilled (tenConversations, None))
                   (snd (loadMoreConversations_begin initialPage));
            sB = loadMoreConversations_resume asciiToLowerCase 0 (Fulfilled (sevenConversations, None))
                   (snd (loadMoreConversations_begin sA))
        in fst (loadMoreConversations_begin initialPage) = Some \<lparr>rq_page = 0, rq_limit = 10\<rparr>
           \<and> fst (loadMoreConversations_begin sA) = Some \<lparr>rq_page = 1, rq_limit = 10\<rparr>
           \<and> length (loadedConversations sB) = 17
           \<and> currentPage (pagination sB) = 2
           \<and> \<not> hasMore (pagination sB) \<and> \<not> isLoading (pagination sB)"
    unfolding tenConversations_def sevenConversations_def by blast
  then have "length (loadedConversations
        (loadMoreConversations_resume asciiToLowerCase 0 (Fulfilled (sevenConversations, None))
           (snd (loadMoreConversations_begin
              (loadMoreConversations_resume asciiToLowerCase 0 (Fulfilled (tenConversations, None))
                 (snd (loadMoreConversations_begin initialPage))))))) = 17
   \<and> currentPage (pagination
        (loadMoreConversations_resume asciiToLowerCase 0 (Fulfilled (sevenConversations, None))
           (snd (loadMoreConversations_begin
              (loadMoreConversations_resume asciiToLowerCase 0 (Fulfilled (tenConversations, None))
                 (snd (loadMoreConversations_begin initialPage))))))) = 2"
    unfolding Let_def by blast
  moreover have "length (conversations tenConversations) = 10
      \<and> length (conversations sevenConversations) = 7"
    by (simp add: tenConversations_def sevenConversations_def)
  ultimately show ?thesis by blast
qed



text \<open>
  C8: when a page of older messages arrives for a load that is not the initial one, the
  cached list of the conversation becomes the fetched messages, in their order, followed
  by the messages cached before; the lists of other conversations are untouched and the
  pane shows the same merged list.
\<close>

theorem older_page_is_prepended:
  "messages r = Some older \<longrightarrow>
     cachedMessages (loadMoreMessages_resume cid False (Fulfilled (Some r)) s) cid
       = older @ cachedMessages s cid
     \<and> (\<forall>c. c \<noteq> cid \<longrightarrow>
          loadedMessages (loadMoreMessages_resume cid False (Fulfilled (Some r)) s) c
            = loadedMessages s c)
     \<and> (messagesContent s \<noteq> None \<longrightarrow>
          messagesContent (loadMoreMessages_resume cid False (Fulfilled (Some r)) s)
            = Some (MessageList (older @ cachedMessages s cid) False))
     \<and> (\<forall>rq s0. loadMoreMessages_begin cid False s = (Some rq, s0) \<longrightarrow>
          cachedMessages (loadMoreMessages_resume cid False (Fulfilled (Some r)) s0) cid
            = older @ cachedMessages s cid)"
proof
  assume m: "messages r = Some older"
  have a: "cachedMessages (loadMoreMessages_resume cid False (Fulfilled (Some r)) t) cid
       = older @ cachedMessages t cid" for t
    by (simp add: cachedMessages_def [of "loadMoreMessages_resume _ _ _ _"]
        loadMoreMessages_resume_merge(1) [OF m])
  have b: "\<forall>c. c \<noteq> cid \<longrightarrow>
          loadedMessages (loadMoreMessages_resume cid False (Fulfilled (Some r)) s) c
            = loadedMessages s c"
    by (simp add: loadMoreMessages_resume_merge(1) [OF m])
  have c: "messagesContent s \<noteq> None \<longrightarrow>
          messagesContent (loadMoreMessages_resume cid False (Fulfilled (Some r)) s)
            = Some (MessageList (older @ cachedMessages s cid) False)"
    by (simp add: loadMoreMessages_resume_merge(2) [OF m])
  have d: "\<forall>rq s0. loadMoreMessages_begin cid False s = (Some rq, s0) \<longrightarrow>
          cachedMessages (loadMoreMessages_resume cid False (Fulfilled (Some r)) s0) cid
            = older @ cachedMessages s cid"
  proof (intro allI impI)
    fix rq s0 assume "loadMoreMessages_begin cid False s = (Some rq, s0)"
    then have "loadedMessages s0 = loadedMessages s"
      by (auto dest: loadMoreMessages_begin_Some)
    then have "cachedMessages s0 cid = cachedMessages s cid"
      by (simp add: cachedMessages_def)
    with a [of s0] show "cachedMessages (loadMoreMessages_resume cid False (Fulfilled (Some r)) s0) cid
            = older @ cachedMessages s cid" by simp
  qed
  from a [of s] b c d show "cachedMessages (loadMoreMessages_resume cid False (Fulfilled (Some r)) s) cid
       = older @ cachedMessages s cid
     \<and> (\<forall>c. c \<noteq> cid \<longrightarrow>
          loadedMessages (loadMoreMessages_resume cid False (Fulfilled (Some r)) s) c
            = loadedMessages s c)
     \<and> (messagesContent s \<noteq> None \<longrightarrow>
          messagesContent (loadMoreMessages_resume cid False (Fulfilled (Some r)) s)
            = Some (MessageList (older @ cachedMessages s cid) False))
     \<and> (\<forall>rq s0. loadMoreMessages_begin cid False s = (Some rq, s0) \<longrightarrow>
          cachedMessages (loadMoreMessages_resume cid False (Fulfilled (Some r)) s0) cid
            = older @ cachedMessages s cid)" by blast
qed

theorem older_page_is_prepended_witness:
  "messages olderPage = Some olderMessages
   \<and> fst (loadMoreMessages_begin ''A'' False morePagesOfA)
       = Some \<lparr>mq_conversationId = ''A'', mq_page = 1, mq_limit = 10\<rparr>
   \<and> cachedMessages
        (loadMoreMessages_resume ''A'' False (Fulfilled (Some olderPage))
           (snd (loadMoreMessages_begin ''A'' False morePagesOfA))) ''A''
       = olderMessages @ fiveMessages"
proof -
  have m: "messages olderPage = Some olderMessages" by (simp add: olderPage_def)
  have f: "fst (loadMoreMessages_begin ''A'' False morePagesOfA)
       = Some \<lparr>mq_conversationId = ''A'', mq_page = 1, mq_limit = 10\<rparr>"
    by (simp add: loadMoreMessages_begin_def morePagesOfA_eval Let_def)
  then have b: "loadMoreMessages_begin ''A'' False morePagesOfA =
     (Some \<lparr>mq_conversationId = ''A'', mq_page = 1, mq_limit = 10\<rparr>,
      snd (loadMoreMessages_begin ''A'' False morePagesOfA))"
    by (metis prod.collapse)
  from older_page_is_prepended [where r = olderPage and older = olderMessages
      and cid = "''A''" and s = morePagesOfA] m
  have "\<forall>rq s0. loadMoreMessages_begin ''A'' False morePagesOfA = (Some rq, s0) \<longrightarrow>
          cachedMessages (loadMoreMessages_resume ''A'' False (Fulfilled (Some olderPage)) s0) ''A''
            = olderMessages @ cachedMessages morePagesOfA ''A''"
    by blast
  with b have "cachedMessages
        (loadMoreMessages_resume ''A'' False (Fulfilled (Some olderPage))
           (snd (loadMoreMessages_begin ''A'' False morePagesOfA))) ''A''
       = olderMessages @ cachedMessages morePagesOfA ''A''"
    by blast
  with m f show ?thesis by (simp add: morePagesOfA_eval)
qed

text \<open>
  C9 says that \<open>hasMore\<close>, once set to false by a page of messages without pagination
  metadata, stays false until the cursor is reset, so that no further page is requested.
  The result of a superseded fetch is applied to the cursor without a test of its
  conversation. Here conversation A is selected, then conversation B while the request
  for A is pending; the page of B arrives without pagination metadata and \<open>hasMore\<close>
  becomes false; then the page of A arrives, saying that A has older messages: \<open>hasMore\<close>
  of the cursor of B is true again, with no reset in between, and the next load attempt
  requests page 1 of B.
\<close>

theorem unpaged_page_not_terminal:
  "map (\<lambda>(cid, isInitialLoad, rq). cid)
     (pendingMessages (run asciiToLowerCase initialSystem
        [SelectConversation ''A'', SelectConversation ''B'',
         SettleMessages 1 (Fulfilled (Some unpagedPage))])) = [''A'']
   \<and> messagesPagination (page (run asciiToLowerCase initialSystem
        [SelectConversation ''A'', SelectConversation ''B'',
         SettleMessages 1 (Fulfilled (Some unpagedPage))]))
      = \<lparr>currentPage = 1, limit = 10, hasMore = False, isLoading = False,
         conversationId = Some ''B''\<rparr>
   \<and> \<not> resetsMessages (SettleMessages 0 laterPageOfA)
   \<and> \<not> resetsMessages (AttemptMessages ''B'' False)
   \<and> messagesPagination (page (run asciiToLowerCase initialSystem
        [SelectConversation ''A'', SelectConversation ''B'',
         SettleMessages 1 (Fulfilled (Some unpagedPage)),
         SettleMessages 0 laterPageOfA]))
      = \<lparr>currentPage = 1, limit = 10, hasMore = True, isLoading = False,
         conversationId = Some ''B''\<rparr>
   \<and> pendingMessages (run asciiToLowerCase initialSystem
        [SelectConversation ''A'', SelectConversation ''B'',
         SettleMessages 1 (Fulfilled (Some unpagedPage)),
         SettleMessages 0 laterPageOfA,
         AttemptMessages ''B'' False])
      = [(''B'', False, \<lparr>mq_conversationId = ''B'', mq_page = 1, mq_limit = 10\<rparr>)]"
  by (simp add: begin_defs unpagedPage_def laterPageOfA_def loadMoreMessages_resume_def
      renderCachedMessages_def showMessagesLoadingIndicator_def cachedMessages_def)

text \<open>
  C10 as stated speaks of a cached response for the endpoint. The cache is keyed by
  endpoint and options: a response for the endpoint cached under the options used while
  the push channel was connected is not found by a call with the options used while it
  is disconnected, and that call raises the error.
\<close>

theorem cachedFetch_other_options_raise:
  "cachedWhileRealTime (cacheKey conversationsEndpoint realTimeOptions)
     = Some \<lparr>ce_data = ''page 0'', ce_timestamp = 0\<rparr>
   \<and> cachedFetch conversationsEndpoint pollingOptions 60000 (FetchThrows ''Failed to fetch'')
        cachedWhileRealTime
     = (Inl ''Failed to fetch'', cachedWhileRealTime)"
proof -
  have n: "cachedWhileRealTime (cacheKey conversationsEndpoint pollingOptions) = None"
    by (simp add: cachedWhileRealTime_def cacheKey_eval)
  have s: "cachedWhileRealTime (cacheKey conversationsEndpoint realTimeOptions)
     = Some \<lparr>ce_data = ''page 0'', ce_timestamp = 0\<rparr>"
    by (simp add: cachedWhileRealTime_def)
  from n s show ?thesis by (simp add: cachedFetch_no_entry)
qed

text \<open>
  C10, as amended: when the network fetch fails (it throws, or the status is not OK) and
  the cache has an entry under the key of this call, which is made of the endpoint and the
  options, \<^verbatim>\<open>cachedFetch\<close> returns the cached data, however old it is; it raises the
  error exactly when there is no entry under that key.
\<close>

theorem cachedFetch_falls_back_to_cache:
  "((\<exists>msg. net = FetchThrows msg) \<or> (\<exists>st body. net = Response False st body)) \<longrightarrow>
     (\<forall>cached. cache (cacheKey endpoint options) = Some cached \<longrightarrow>
        cachedFetch endpoint options now net cache = (Inr (ce_data cached), cache))
     \<and> (cache (cacheKey endpoint options) = None \<longrightarrow>
          (\<exists>msg. cachedFetch endpoint options now net cache = (Inl msg, cache)))
     \<and> (\<forall>msg. fst (cachedFetch endpoint options now net cache) = Inl msg \<longrightarrow>
          cache (cacheKey endpoint options) = None)"
proof
  assume f: "(\<exists>msg. net = FetchThrows msg) \<or> (\<exists>st body. net = Response False st body)"
  have a: "\<forall>cached. cache (cacheKey endpoint options) = Some cached \<longrightarrow>
        cachedFetch endpoint options now net cache = (Inr (ce_data cached), cache)"
    using f by (auto intro!: cachedFetch_cached)
  have b: "cache (cacheKey endpoint options) = None \<longrightarrow>
          (\<exists>msg. cachedFetch endpoint options now net cache = (Inl msg, cache))"
    using f by (auto simp add: cachedFetch_no_entry)
  have c: "\<forall>msg. fst (cachedFetch endpoint options now net cache) = Inl msg \<longrightarrow>
          cache (cacheKey endpoint options) = None"
    by (auto dest: cachedFetch_raises_only_without_entry)
  from a b c show "(\<forall>cached. cache (cacheKey endpoint options) = Some cached \<longrightarrow>
        cachedFetch endpoint options now net cache = (Inr (ce_data cached), cache))
     \<and> (cache (cacheKey endpoint options) = None \<longrightarrow>
          (\<exists>msg. cachedFetch endpoint options now net cache = (Inl msg, cache)))
     \<and> (\<forall>msg. fst (cachedFetch endpoint options now net cache) = Inl msg \<longrightarrow>
          cache (cacheKey endpoint options) = None)" by blast
qed

theorem cachedFetch_falls_back_to_cache_witness:
  "cachedWhileRealTime (cacheKey conversationsEndpoint realTimeOptions)
     = Some \<lparr>ce_data = ''page 0'', ce_timestamp = 0\<rparr>
   \<and> \<not> (60000 - 0 < (30000::int))
   \<and> cachedFetch conversationsEndpoint realTimeOptions 60000 (FetchThrows ''Failed to fetch'')
        cachedWhileRealTime
     = (Inr ''page 0'', cachedWhileRealTime)
   \<and> cachedFetch conversationsEndpoint realTimeOptions 60000 (Response False 503 (Inl []))
        cachedWhileRealTime
     = (Inr ''page 0'', cachedWhileRealTime)"
proof -
  have s: "cachedWhileRealTime (cacheKey conversationsEndpoint realTimeOptions)
     = Some \<lparr>ce_data = ''page 0'', ce_timestamp = 0\<rparr>"
    by (simp add: cachedWhileRealTime_def)
  from cachedFetch_falls_back_to_cache
         [where net = "FetchThrows ''Failed to fetch''" and cache = cachedWhileRealTime
            and endpoint = conversationsEndpoint and options = realTimeOptions and now = 60000]
       cachedFetch_falls_back_to_cache
         [where net = "Response False 503 (Inl [])" and cache = cachedWhileRealTime
            and endpoint = conversationsEndpoint and options = realTimeOptions and now = 60000] s
  show ?thesis by simp
qed

end
